theory Spec2Isabelle
  imports Complex_Main
begin

section \<open>The treatment and demand model of the newsvendor game\<close>

text \<open>
  This theory embeds \<^verbatim>\<open>src/utk-games/shorthorizon/treatment.py\<close>: the profile table
  \<^verbatim>\<open>DISTRIBUTIONS\<close>, the classes \<^verbatim>\<open>UnitCosts\<close>, \<^verbatim>\<open>DisributionParameters\<close> and
  \<^verbatim>\<open>Treatment\<close>, and the methods of \<^verbatim>\<open>Treatment\<close>.

  Conventions of the embedding.
  \<^item> Python and numpy floats are real numbers: \<^verbatim>\<open>np.log\<close>, \<^verbatim>\<open>np.sqrt\<close> and \<^verbatim>\<open>np.exp\<close> are
    \<open>ln\<close>, \<open>sqrt\<close> and \<open>exp\<close>; the rounding and the overflow of floats are not modelled.
    The one place where the code can meet an infinite float, the normal quantile at the
    ends of its domain, is modelled with the values \<open>PosInf\<close>, \<open>NegInf\<close> and \<open>NaN\<close>.
  \<^item> oTree \<^verbatim>\<open>Currency\<close> amounts are decimal numbers with a fixed number of decimal places,
    set by the session's configuration, which is not part of the repository: the number
    is the parameter \<open>places\<close> of the one method that computes with them.
  \<^item> Library functions whose code is not part of the repository are parameters of the
    methods that call them: \<^verbatim>\<open>scipy.stats.norm.ppf\<close> (\<open>ppf\<close>), \<^verbatim>\<open>np.random.lognormal\<close>
    together with numpy's global generator state (\<open>lognormal\<close> and a state \<open>g\<close>), and
    the JSON decoder and encoder behind pydantic's \<^verbatim>\<open>parse_raw\<close> and \<^verbatim>\<open>json\<close>
    (\<open>decode\<close>, \<open>dumps\<close>).
  \<^item> A method that mutates the treatment returns the treatment after the call next to
    its result; an exception is an \<open>Inl\<close> result, and the treatment returned with it is
    the object as the exception leaves it.
\<close>

subsection \<open>Python values and exceptions\<close>

text \<open>
  The attribute \<^verbatim>\<open>idx\<close> and the argument \<^verbatim>\<open>size\<close> are not checked by any type at run
  time, so they range over Python values. \<open>PyClass\<close> is a class object, named by its
  class name.
\<close>

datatype py_value =
    PyNone
  | PyBool bool
  | PyInt int
  | PyFloat real
  | PyStr string
  | PyList "py_value list"
  | PyDict "(string \<times> py_value) list"
  | PyClass string

datatype error =
    ValidationError
  | AssertionError
  | IndexError
  | TypeError
  | ZeroDivisionError
  | InvalidOperation
  | ValueError

subsection \<open>The profile table\<close>

text \<open>
  \<^verbatim>\<open>DISTRIBUTIONS\<close>: six dictionaries \<^verbatim>\<open>dict(natural_mean=.., natural_sigma=..)\<close>, read
  through \<^verbatim>\<open>.values()\<close> as the pair (natural_mean, natural_sigma).
\<close>

definition DISTRIBUTIONS :: "(int \<times> int) list" where
  "DISTRIBUTIONS =
     [(100, 50), (100, 100), (500, 150), (500, 150), (100, 50), (100, 100)]"

text \<open>
  Python's \<^verbatim>\<open>xs[i]\<close>: an \<^verbatim>\<open>int\<close> indexes from the front, a negative one from the
  back, and raises \<^verbatim>\<open>IndexError\<close> out of range; a \<^verbatim>\<open>bool\<close> is an \<^verbatim>\<open>int\<close> (0 or 1);
  any other value raises \<^verbatim>\<open>TypeError\<close>.
\<close>

definition int_index :: "'a list \<Rightarrow> int \<Rightarrow> error + 'a" where
  "int_index xs i =
     (if 0 \<le> i \<and> i < int (length xs) then Inr (xs ! nat i)
      else if - int (length xs) \<le> i \<and> i < 0 then Inr (xs ! nat (int (length xs) + i))
      else Inl IndexError)"

fun py_index :: "'a list \<Rightarrow> py_value \<Rightarrow> error + 'a" where
  "py_index xs (PyInt i) = int_index xs i"
| "py_index xs (PyBool b) = int_index xs (if b then 1 else 0)"
| "py_index xs v = Inl TypeError"

text \<open>Python's \<^verbatim>\<open>v == k\<close> for an integer literal \<open>k\<close>.\<close>

fun py_eq_int :: "py_value \<Rightarrow> int \<Rightarrow> bool" where
  "py_eq_int (PyInt i) k = (i = k)"
| "py_eq_int (PyBool b) k = ((if b then 1 else 0) = k)"
| "py_eq_int (PyFloat r) k = (r = real_of_int k)"
| "py_eq_int v k = False"

subsection \<open>The classes\<close>

text \<open>\<^verbatim>\<open>UnitCosts\<close>: retail, wholesale and salvage cost per unit.\<close>

record UnitCosts =
  rcpu :: real
  wcpu :: real
  scpu :: real

text \<open>\<^verbatim>\<open>DisributionParameters\<close> (the source's spelling): log-normal location and scale.\<close>

record DisributionParameters =
  mu :: real
  sigma :: real

text \<open>
  \<^verbatim>\<open>Treatment\<close>. The class body is
  \<^verbatim>\<open>idx: int = conint(strict=True, ge=0, le=len(DISTRIBUTIONS) - 1)\<close>,
  \<^verbatim>\<open>_mu: float = None\<close>, \<^verbatim>\<open>_sigma: float = None\<close>, \<^verbatim>\<open>_demand_rvs: List[float] = []\<close>,
  with \<^verbatim>\<open>Config.extra = Extra.allow\<close>.

  The annotation of \<^verbatim>\<open>idx\<close> is the plain \<^verbatim>\<open>int\<close>; the constrained type built by
  \<^verbatim>\<open>conint\<close> stands where the default value stands. pydantic (version 1, which the
  imports \<^verbatim>\<open>StrBytes\<close> and \<^verbatim>\<open>pydantic.main.Extra\<close> fix) validates a field against its
  annotation, never against its default, so the bounds 0 and 5 are checked nowhere.
  Moreover its metaclass leaves an annotated attribute whose default value is a class
  untouched: \<^verbatim>\<open>idx\<close> is no field at all, \<^verbatim>\<open>Treatment.__fields__\<close> is empty, and the
  class attribute \<^verbatim>\<open>Treatment.idx\<close> is the constrained type itself. Names with a
  leading underscore are never fields. Every keyword given to the constructor is
  therefore an extra, kept as it is in the instance's \<^verbatim>\<open>__dict__\<close> because extras are
  allowed, and an assignment \<^verbatim>\<open>self._mu = ..\<close> is stored the same way.

  The record holds what the four attribute reads of the methods return: \<open>idx\<close> is
  \<^verbatim>\<open>self.idx\<close> (the class attribute \<open>idx_default\<close> when the instance has none),
  \<open>cached_mu\<close> and \<open>cached_sigma\<close> are \<^verbatim>\<open>self._mu\<close> and \<^verbatim>\<open>self._sigma\<close> (\<open>None\<close> for
  Python's \<^verbatim>\<open>None\<close>), \<open>demand_rvs\<close> is \<^verbatim>\<open>self._demand_rvs\<close>.
\<close>

record Treatment =
  idx :: py_value
  cached_mu :: "real option"
  cached_sigma :: "real option"
  demand_rvs :: "real list"

definition idx_default :: py_value where
  "idx_default = PyClass ''ConstrainedIntValue''"

text \<open>\<^verbatim>\<open>Treatment(idx=v)\<close>: no validation, the caches at their class defaults.\<close>

definition new_Treatment :: "py_value \<Rightarrow> Treatment" where
  "new_Treatment v =
     \<lparr>idx = v, cached_mu = None, cached_sigma = None, demand_rvs = []\<rparr>"

subsection \<open>Unit costs\<close>

text \<open>
  \<^verbatim>\<open>UnitCosts.from_treatment\<close>: the class defaults are
  \<^verbatim>\<open>Currency(25)\<close>, \<^verbatim>\<open>Currency(14)\<close>, \<^verbatim>\<open>Currency(6)\<close>; treatment 3 gets
  \<^verbatim>\<open>Currency(24)\<close>, \<^verbatim>\<open>Currency(5.5)\<close>, \<^verbatim>\<open>Currency(5)\<close>. The records hold the amounts as
  the source writes them; the rounding of an amount to the decimal places of the
  currency is applied where the amounts are computed with, in \<open>critical_fractile\<close>
  below.
\<close>

definition default_costs :: UnitCosts where
  "default_costs = \<lparr>rcpu = 25, wcpu = 14, scpu = 6\<rparr>"

definition alternate_costs :: UnitCosts where
  "alternate_costs = \<lparr>rcpu = 24, wcpu = 11 / 2, scpu = 5\<rparr>"

definition UnitCosts_from_treatment :: "Treatment \<Rightarrow> UnitCosts" where
  "UnitCosts_from_treatment treatment =
     (if py_eq_int (idx treatment) 3 then alternate_costs else default_costs)"

definition get_unit_costs :: "Treatment \<Rightarrow> UnitCosts" where
  "get_unit_costs self = UnitCosts_from_treatment self"

subsection \<open>Distribution parameters\<close>

text \<open>
  \<^verbatim>\<open>DisributionParameters.from_treatment\<close>: the method-of-moments fit. The only
  exception of the arithmetic is the integer division \<^verbatim>\<open>natural_sigma ** 2 /
  (natural_mean ** 2)\<close> by zero; numpy's functions do not raise.
\<close>

definition DisributionParameters_from_treatment :: "Treatment \<Rightarrow> error + DisributionParameters" where
  "DisributionParameters_from_treatment treatment =
     (case py_index DISTRIBUTIONS (idx treatment) of
        Inl e \<Rightarrow> Inl e
      | Inr (natural_mean, natural_sigma) \<Rightarrow>
          if natural_mean ^ 2 = 0 then Inl ZeroDivisionError
          else Inr \<lparr>mu = ln (real_of_int (natural_mean ^ 2)
                             / sqrt (real_of_int (natural_sigma ^ 2 + natural_mean ^ 2))),
                    sigma = sqrt (ln (real_of_int (natural_sigma ^ 2)
                                      / real_of_int (natural_mean ^ 2) + 1))\<rparr>)"

text \<open>
  \<^verbatim>\<open>Treatment.get_distribution_parameters\<close>: fit and store on the first call, then
  return what is stored.
\<close>

definition get_distribution_parameters ::
  "Treatment \<Rightarrow> (error + DisributionParameters) \<times> Treatment" where
  "get_distribution_parameters self =
     (case (cached_mu self, cached_sigma self) of
        (Some m, Some s) \<Rightarrow> (Inr \<lparr>mu = m, sigma = s\<rparr>, self)
      | _ \<Rightarrow>
          (case DisributionParameters_from_treatment self of
             Inl e \<Rightarrow> (Inl e, self)
           | Inr p \<Rightarrow>
               (Inr \<lparr>mu = mu p, sigma = sigma p\<rparr>,
                self\<lparr>cached_mu := Some (mu p), cached_sigma := Some (sigma p)\<rparr>)))"

subsection \<open>The optimal order quantity\<close>

text \<open>
  A \<^verbatim>\<open>Currency\<close> holds its amount rounded half up (away from zero) to the decimal places
  of the currency, and every arithmetic operator of \<^verbatim>\<open>Currency\<close> wraps its result in a
  \<^verbatim>\<open>Currency\<close> again. \<open>Currency places x\<close> is \<open>x\<close> so rounded.
\<close>

definition Currency :: "nat \<Rightarrow> real \<Rightarrow> real" where
  "Currency places x =
     sgn x * real_of_int \<lfloor>\<bar>x\<bar> * 10 ^ places + 1 / 2\<rfloor> / 10 ^ places"

text \<open>
  The value of \<^verbatim>\<open>stats.norm.ppf\<close>, and of the float arithmetic done with it: a number,
  an infinity or not a number. \<open>np_times r x\<close> is the product of the number \<open>r\<close> and \<open>x\<close>,
  \<open>np_exp\<close> is \<^verbatim>\<open>np.exp\<close>.
\<close>

datatype np_float = Finite real | PosInf | NegInf | NaN

fun np_times :: "real \<Rightarrow> np_float \<Rightarrow> np_float" where
  "np_times r (Finite z) = Finite (r * z)"
| "np_times r PosInf = (if 0 < r then PosInf else if r < 0 then NegInf else NaN)"
| "np_times r NegInf = (if 0 < r then NegInf else if r < 0 then PosInf else NaN)"
| "np_times r NaN = NaN"

fun np_exp :: "np_float \<Rightarrow> np_float" where
  "np_exp (Finite z) = Finite (exp z)"
| "np_exp PosInf = PosInf"
| "np_exp NegInf = Finite 0"
| "np_exp NaN = NaN"

text \<open>
  The first four lines of \<^verbatim>\<open>Treatment.get_optimal_order_quantity\<close>: the three costs are
  \<^verbatim>\<open>Currency\<close> objects (the amounts of \<open>get_unit_costs\<close>, which a currency of one decimal
  place or more holds as they are written), the two differences, their sum and the
  quotient are \<^verbatim>\<open>Currency\<close> results, and \<^verbatim>\<open>float\<close> takes the rounded quotient. A division
  by a zero amount raises decimal's \<^verbatim>\<open>DivisionByZero\<close>, a \<^verbatim>\<open>ZeroDivisionError\<close>, and
  \<^verbatim>\<open>InvalidOperation\<close> when the dividend is zero too.
\<close>

definition critical_fractile :: "nat \<Rightarrow> UnitCosts \<Rightarrow> error + real" where
  "critical_fractile places c =
     (let overage_cost = Currency places (Currency places (wcpu c) - Currency places (scpu c));
          underage_cost = Currency places (Currency places (rcpu c) - Currency places (wcpu c));
          total = Currency places (underage_cost + overage_cost)
      in if total = 0
         then Inl (if underage_cost = 0 then InvalidOperation else ZeroDivisionError)
         else Inr (Currency places (underage_cost / total)))"

text \<open>
  \<^verbatim>\<open>Treatment.get_optimal_order_quantity\<close>. The critical fractile is computed before
  the parameters are fetched; \<^verbatim>\<open>natural_sigma\<close> is computed by the source and never
  used. \<open>ppf\<close> is \<^verbatim>\<open>scipy.stats.norm.ppf\<close>.
\<close>

definition get_optimal_order_quantity ::
  "nat \<Rightarrow> (real \<Rightarrow> np_float) \<Rightarrow> Treatment \<Rightarrow> (error + np_float) \<times> Treatment" where
  "get_optimal_order_quantity places ppf self =
     (case critical_fractile places (get_unit_costs self) of
        Inl e \<Rightarrow> (Inl e, self)
      | Inr cf \<Rightarrow>
          (case get_distribution_parameters self of
             (Inl e, self') \<Rightarrow> (Inl e, self')
           | (Inr p, self') \<Rightarrow>
               (let natural_mean = exp (mu p + (1 / 2) * sigma p ^ 2)
                in (Inr (np_times natural_mean (np_exp (np_times (sigma p) (ppf cf)))), self'))))"

subsection \<open>Demand samples\<close>

text \<open>
  \<^verbatim>\<open>Treatment.get_demand_rvs\<close>. \<open>size\<close> is the argument as passed, \<open>PyNone\<close> when it is
  omitted or \<^verbatim>\<open>None\<close>; the method replaces \<open>PyNone\<close> by \<^verbatim>\<open>int(1e4)\<close>. The assertion
  \<^verbatim>\<open>type(size) is int and size > 0\<close> rejects every value whose type is not exactly
  \<^verbatim>\<open>int\<close> (a \<^verbatim>\<open>bool\<close> too); \<open>valid_size\<close> is the checked size as a length.
  \<open>lognormal g m s n\<close> is \<^verbatim>\<open>np.random.lognormal(m, s, n).tolist()\<close> run in generator
  state \<open>g\<close>: the draws and the next state. numpy raises \<^verbatim>\<open>ValueError\<close> for a negative
  scale before it draws; its limits on the length of an array are not modelled, the
  sampler answers for every length. The two \<open>TypeError\<close> branches are \<^verbatim>\<open>None * 2\<close> and a \<^verbatim>\<open>None\<close>
  handed to numpy; they cannot be reached, since both caches are set once
  \<^verbatim>\<open>get_distribution_parameters\<close> has returned.
\<close>

fun valid_size :: "py_value \<Rightarrow> nat option" where
  "valid_size (PyInt n) = (if n > 0 then Some (nat n) else None)"
| "valid_size v = None"

definition get_demand_rvs ::
  "('g \<Rightarrow> real \<Rightarrow> real \<Rightarrow> nat \<Rightarrow> real list \<times> 'g) \<Rightarrow> Treatment \<Rightarrow> py_value \<Rightarrow> bool \<Rightarrow> 'g
     \<Rightarrow> (error + real list) \<times> Treatment \<times> 'g" where
  "get_demand_rvs lognormal self size_arg disrupt g =
     (let size = (if size_arg = PyNone then PyInt 10000 else size_arg)
      in case valid_size size of
           None \<Rightarrow> (Inl AssertionError, self, g)
         | Some n \<Rightarrow>
             if length (demand_rvs self) = n \<and> \<not> disrupt then (Inr (demand_rvs self), self, g)
             else
               (case get_distribution_parameters self of
                  (Inl e, self1) \<Rightarrow> (Inl e, self1, g)
                | (Inr p, self1) \<Rightarrow>
                    (case (if disrupt
                           then (case (cached_mu self1, cached_sigma self1) of
                                   (Some m, Some s) \<Rightarrow>
                                     Inr (self1\<lparr>cached_mu := Some (m * 1),
                                               cached_sigma := Some (s * 2)\<rparr>)
                                 | _ \<Rightarrow> Inl TypeError)
                           else Inr self1) of
                       Inl e \<Rightarrow> (Inl e, self1, g)
                     | Inr self2 \<Rightarrow>
                         (case (cached_mu self2, cached_sigma self2) of
                            (Some m, Some s) \<Rightarrow>
                              if s < 0 then (Inl ValueError, self2, g)
                              else
                                (let (xs, g') = lognormal g m s n
                                 in (Inr xs, self2\<lparr>demand_rvs := xs\<rparr>, g'))
                          | _ \<Rightarrow> (Inl TypeError, self2, g)))))"

subsection \<open>Serialization\<close>

text \<open>
  \<^verbatim>\<open>PydanticModel.json\<close> passes \<^verbatim>\<open>include=set(self.__fields__)\<close> to pydantic, which
  keeps the entries of the instance's \<^verbatim>\<open>__dict__\<close> whose key is included and hands
  the resulting dictionary to the JSON encoder \<open>dumps\<close>. \<open>Treatment_fields\<close> is
  \<^verbatim>\<open>Treatment.__fields__\<close>, empty for the reason given with the record; \<open>attributes\<close>
  lists the entries the \<^verbatim>\<open>__dict__\<close> can hold for the four attributes.
\<close>

definition Treatment_fields :: "string list" where
  "Treatment_fields = []"

definition attributes :: "Treatment \<Rightarrow> (string \<times> py_value) list" where
  "attributes self =
     [(''idx'', idx self),
      (''_mu'', case cached_mu self of None \<Rightarrow> PyNone | Some m \<Rightarrow> PyFloat m),
      (''_sigma'', case cached_sigma self of None \<Rightarrow> PyNone | Some s \<Rightarrow> PyFloat s),
      (''_demand_rvs'', PyList (map PyFloat (demand_rvs self)))]"

definition Treatment_dict :: "Treatment \<Rightarrow> (string \<times> py_value) list" where
  "Treatment_dict self = filter (\<lambda>(k, v). k \<in> set Treatment_fields) (attributes self)"

definition json :: "(py_value \<Rightarrow> string) \<Rightarrow> Treatment \<Rightarrow> string" where
  "json dumps self = dumps (PyDict (Treatment_dict self))"

text \<open>
  \<^verbatim>\<open>Treatment.from_json\<close> is \<^verbatim>\<open>Treatment.parse_raw(json)\<close>. \<open>decode\<close> is the library's
  part of it: the blob is decoded and coerced into the keyword dictionary of the
  constructor call \<^verbatim>\<open>cls(**obj)\<close>, or an exception is raised (pydantic's
  \<^verbatim>\<open>ValidationError\<close> for a text that is not JSON). The constructor then validates the
  declared fields, of which there are none, and keeps every keyword as an extra
  attribute. A number given for \<^verbatim>\<open>_mu\<close> or \<^verbatim>\<open>_sigma\<close> and a list of numbers given for
  \<^verbatim>\<open>_demand_rvs\<close> preset the caches; presets of any other type have no place in the
  record and count as absent.
\<close>

fun preset_float :: "py_value option \<Rightarrow> real option" where
  "preset_float (Some (PyFloat r)) = Some r"
| "preset_float (Some (PyInt i)) = Some (real_of_int i)"
| "preset_float v = None"

fun preset_floats :: "py_value option \<Rightarrow> real list" where
  "preset_floats (Some (PyList vs)) =
     (if list_all (\<lambda>v. preset_float (Some v) \<noteq> None) vs
      then map (\<lambda>v. the (preset_float (Some v))) vs else [])"
| "preset_floats v = []"

definition Treatment_init :: "(string \<times> py_value) list \<Rightarrow> Treatment" where
  "Treatment_init kwargs =
     \<lparr>idx = (case map_of kwargs ''idx'' of None \<Rightarrow> idx_default | Some v \<Rightarrow> v),
      cached_mu = preset_float (map_of kwargs ''_mu''),
      cached_sigma = preset_float (map_of kwargs ''_sigma''),
      demand_rvs = preset_floats (map_of kwargs ''_demand_rvs'')\<rparr>"

definition from_json ::
  "(string \<Rightarrow> error + (string \<times> py_value) list) \<Rightarrow> string \<Rightarrow> error + Treatment" where
  "from_json decode blob =
     (case decode blob of
        Inl e \<Rightarrow> Inl e
      | Inr kwargs \<Rightarrow> Inr (Treatment_init kwargs))"

text \<open>A blob whose index is out of range: the text \<^verbatim>\<open>{"idx": 7}\<close>.\<close>

definition out_of_range_blob :: string where
  "out_of_range_blob = ''{'' @ [CHR 0x22] @ ''idx'' @ [CHR 0x22] @ '': 7}''"

subsection \<open>Treatments in use\<close>

text \<open>
  \<open>valid_idx\<close>: an integer index of the profile table, 0 to 5, what the spec calls a
  treatment index. \<open>call\<close> is one method call of a session and \<open>run\<close> a sequence of
  calls on one treatment, threading the treatment and the generator state; \<open>places\<close>
  and \<open>ppf\<close> are the parameters of \<open>get_optimal_order_quantity\<close>.
\<close>

fun valid_idx :: "py_value \<Rightarrow> bool" where
  "valid_idx (PyInt i) = (0 \<le> i \<and> i \<le> 5)"
| "valid_idx v = False"

datatype call =
    GetDistributionParameters
  | GetOptimalOrderQuantity
  | GetDemandRvs py_value bool

fun step ::
  "nat \<Rightarrow> (real \<Rightarrow> np_float) \<Rightarrow> ('g \<Rightarrow> real \<Rightarrow> real \<Rightarrow> nat \<Rightarrow> real list \<times> 'g) \<Rightarrow> call
     \<Rightarrow> Treatment \<times> 'g \<Rightarrow> Treatment \<times> 'g" where
  "step places ppf lognormal GetDistributionParameters (t, g) =
     (snd (get_distribution_parameters t), g)"
| "step places ppf lognormal GetOptimalOrderQuantity (t, g) =
     (snd (get_optimal_order_quantity places ppf t), g)"
| "step places ppf lognormal (GetDemandRvs size_arg disrupt) (t, g) =
     snd (get_demand_rvs lognormal t size_arg disrupt g)"

fun run ::
  "nat \<Rightarrow> (real \<Rightarrow> np_float) \<Rightarrow> ('g \<Rightarrow> real \<Rightarrow> real \<Rightarrow> nat \<Rightarrow> real list \<times> 'g) \<Rightarrow> call list
     \<Rightarrow> Treatment \<times> 'g \<Rightarrow> Treatment \<times> 'g" where
  "run places ppf lognormal [] s = s"
| "run places ppf lognormal (c # cs) s = run places ppf lognormal cs (step places ppf lognormal c s)"

text \<open>The calls of a sequence that disrupt: a valid size (or none) and \<^verbatim>\<open>disrupt=True\<close>.\<close>

fun disrupts :: "call \<Rightarrow> bool" where
  "disrupts (GetDemandRvs size_arg disrupt) =
     (disrupt \<and> (size_arg = PyNone \<or> valid_size size_arg \<noteq> None))"
| "disrupts c = False"

section \<open>Properties\<close>

subsection \<open>Auxiliary facts\<close>

lemma index_cases:
  "0 \<le> (i::int) \<Longrightarrow> i \<le> 5 \<Longrightarrow> i = 0 \<or> i = 1 \<or> i = 2 \<or> i = 3 \<or> i = 4 \<or> i = 5"
  by arith

lemma valid_idx_cases:
  "valid_idx v \<Longrightarrow> \<exists>i. v = PyInt i \<and> 0 \<le> i \<and> i \<le> 5"
  by (cases v) auto

lemma int_index_table:
  "0 \<le> i \<Longrightarrow> i \<le> 5 \<Longrightarrow> int_index DISTRIBUTIONS i = Inr (DISTRIBUTIONS ! nat i)"
  by (simp add: int_index_def DISTRIBUTIONS_def)

lemma table_mean_nonzero:
  assumes "0 \<le> i" "i \<le> 5"
  shows "fst (DISTRIBUTIONS ! nat i) \<noteq> 0"
  using index_cases [OF assms] by (auto simp: DISTRIBUTIONS_def)

lemma from_treatment_valid:
  assumes "idx t = PyInt i" "0 \<le> i" "i \<le> 5" "DISTRIBUTIONS ! nat i = (m, s)"
  shows "DisributionParameters_from_treatment t =
           Inr \<lparr>mu = ln (real_of_int (m ^ 2) / sqrt (real_of_int (s ^ 2 + m ^ 2))),
                sigma = sqrt (ln (real_of_int (s ^ 2) / real_of_int (m ^ 2) + 1))\<rparr>"
proof -
  have "m \<noteq> 0" using table_mean_nonzero [OF assms(2,3)] assms(4) by simp
  then show ?thesis
    using assms by (simp add: DisributionParameters_from_treatment_def int_index_table)
qed

lemma from_treatment_ok:
  assumes "valid_idx (idx t)"
  shows "\<exists>p. DisributionParameters_from_treatment t = Inr p \<and> 0 \<le> sigma p"
proof -
  obtain i where i: "idx t = PyInt i" "0 \<le> i" "i \<le> 5"
    using valid_idx_cases [OF assms] by blast
  obtain m s where ms: "DISTRIBUTIONS ! nat i = (m, s)" by (cases "DISTRIBUTIONS ! nat i")
  show ?thesis using from_treatment_valid [OF i ms] by simp
qed

lemma gdp_cached:
  "cached_mu t = Some m \<Longrightarrow> cached_sigma t = Some s \<Longrightarrow>
     get_distribution_parameters t = (Inr \<lparr>mu = m, sigma = s\<rparr>, t)"
  by (simp add: get_distribution_parameters_def)

lemma gdp_fresh:
  "cached_mu t = None \<or> cached_sigma t = None \<Longrightarrow> DisributionParameters_from_treatment t = Inr p \<Longrightarrow>
     get_distribution_parameters t =
       (Inr p, t\<lparr>cached_mu := Some (mu p), cached_sigma := Some (sigma p)\<rparr>)"
  by (auto simp: get_distribution_parameters_def split: option.splits)

lemma gdp_fresh_error:
  "cached_mu t = None \<or> cached_sigma t = None \<Longrightarrow> DisributionParameters_from_treatment t = Inl e \<Longrightarrow>
     get_distribution_parameters t = (Inl e, t)"
  by (auto simp: get_distribution_parameters_def split: option.splits)

lemma gdp_state:
  assumes "get_distribution_parameters t = (Inr p, t')"
  shows "cached_mu t' = Some (mu p) \<and> cached_sigma t' = Some (sigma p) \<and>
         idx t' = idx t \<and> demand_rvs t' = demand_rvs t"
  using assms
  by (auto simp: get_distribution_parameters_def split: option.splits sum.splits)

lemma gdp_again:
  assumes "get_distribution_parameters t = (Inr p, t')"
  shows "get_distribution_parameters t' = (Inr p, t')"
  using gdp_state [OF assms] by (simp add: gdp_cached)

lemma gdp_error_state:
  "get_distribution_parameters t = (Inl e, t') \<Longrightarrow> t' = t"
  by (auto simp: get_distribution_parameters_def split: option.splits sum.splits)

lemma gdp_valid:
  assumes "valid_idx (idx t)"
  shows "\<exists>p t'. get_distribution_parameters t = (Inr p, t')"
proof (cases "cached_mu t = None \<or> cached_sigma t = None")
  case True
  then show ?thesis using from_treatment_ok [OF assms] gdp_fresh by blast
next
  case False
  then show ?thesis by (auto simp: gdp_cached)
qed

lemma gdp_params_again:
  assumes "fst (get_distribution_parameters t) = Inr p"
  shows "fst (get_distribution_parameters (snd (get_distribution_parameters t))) = Inr p"
proof -
  obtain t' where "get_distribution_parameters t = (Inr p, t')"
    using assms by (cases "get_distribution_parameters t") simp
  then show ?thesis using gdp_again by fastforce
qed

lemma goq_params:
  assumes "fst (get_distribution_parameters t) = Inr p"
  shows "fst (get_distribution_parameters (snd (get_optimal_order_quantity places ppf t))) = Inr p"
proof -
  obtain t' where t': "get_distribution_parameters t = (Inr p, t')"
    using assms by (cases "get_distribution_parameters t") simp
  have "snd (get_optimal_order_quantity places ppf t) = t \<or>
        snd (get_optimal_order_quantity places ppf t) = t'"
    using t' by (simp add: get_optimal_order_quantity_def Let_def split: sum.splits)
  then show ?thesis using assms gdp_again [OF t'] by auto
qed

lemma rvs_invalid_size:
  "size_arg \<noteq> PyNone \<Longrightarrow> valid_size size_arg = None \<Longrightarrow>
     get_demand_rvs lognormal t size_arg disrupt g = (Inl AssertionError, t, g)"
  by (simp add: get_demand_rvs_def)

lemma rvs_default_size:
  "get_demand_rvs lognormal t PyNone disrupt g = get_demand_rvs lognormal t (PyInt 10000) disrupt g"
  by (simp add: get_demand_rvs_def)

lemma rvs_cache_hit:
  "valid_size size_arg = Some n \<Longrightarrow> length (demand_rvs t) = n \<Longrightarrow>
     get_demand_rvs lognormal t size_arg False g = (Inr (demand_rvs t), t, g)"
  by (cases "size_arg = PyNone") (auto simp: get_demand_rvs_def)

lemma rvs_draw:
  assumes "valid_size size_arg = Some n" "length (demand_rvs t) \<noteq> n \<or> disrupt"
    and "get_distribution_parameters t = (Inr p, t1)"
    and "0 \<le> sigma p"
  shows "get_demand_rvs lognormal t size_arg disrupt g =
           (let s = (if disrupt then sigma p * 2 else sigma p);
                t2 = (if disrupt then t1\<lparr>cached_mu := Some (mu p * 1), cached_sigma := Some s\<rparr> else t1);
                (xs, g') = lognormal g (mu p) s n
            in (Inr xs, t2\<lparr>demand_rvs := xs\<rparr>, g'))"
proof -
  have ne: "size_arg \<noteq> PyNone" using assms(1) by auto
  show ?thesis
    using assms gdp_state [OF assms(3)] ne
    by (auto simp: get_demand_rvs_def Let_def split: prod.splits)
qed

lemma rvs_params:
  assumes "fst (get_distribution_parameters t) = Inr p"
  shows "fst (get_distribution_parameters (fst (snd (get_demand_rvs lognormal t size_arg disrupt g)))) =
           Inr (if disrupts (GetDemandRvs size_arg disrupt)
                then \<lparr>mu = mu p, sigma = 2 * sigma p\<rparr> else p)"
proof -
  obtain t1 where t1: "get_distribution_parameters t = (Inr p, t1)"
    using assms by (cases "get_distribution_parameters t") simp
  note st = gdp_state [OF t1] gdp_again [OF t1]
  show ?thesis
    using t1 st assms
    by (auto simp: get_demand_rvs_def Let_def gdp_cached split: prod.splits option.splits)
qed

lemma step_params:
  assumes "fst (get_distribution_parameters t) = Inr p"
  shows "fst (get_distribution_parameters (fst (step places ppf lognormal c (t, g)))) =
           Inr (if disrupts c then \<lparr>mu = mu p, sigma = 2 * sigma p\<rparr> else p)"
proof (cases c)
  case GetDistributionParameters
  then show ?thesis using gdp_params_again [OF assms] by simp
next
  case GetOptimalOrderQuantity
  then show ?thesis using goq_params [OF assms] by simp
next
  case (GetDemandRvs size_arg disrupt)
  then show ?thesis using rvs_params [OF assms, of lognormal size_arg disrupt g] by simp
qed

lemma run_params:
  assumes "fst (get_distribution_parameters t) = Inr p"
  shows "fst (get_distribution_parameters (fst (run places ppf lognormal cs (t, g)))) =
           Inr \<lparr>mu = mu p, sigma = 2 ^ length (filter disrupts cs) * sigma p\<rparr>"
  using assms
proof (induction cs arbitrary: t g p)
  case Nil
  then show ?case by simp
next
  case (Cons c cs)
  obtain t' g' where s: "step places ppf lognormal c (t, g) = (t', g')"
    by (cases "step places ppf lognormal c (t, g)")
  let ?q = "if disrupts c then \<lparr>mu = mu p, sigma = 2 * sigma p\<rparr> else p"
  have "fst (get_distribution_parameters t') = Inr ?q"
    using step_params [OF Cons.prems, of places ppf lognormal c g] s by simp
  from Cons.IH [OF this, of g'] show ?case
    using s by (simp add: mult.assoc)
qed

lemma costs_differ: "alternate_costs \<noteq> default_costs"
  by (simp add: alternate_costs_def default_costs_def)

lemma unit_costs_int:
  "idx t = PyInt i \<Longrightarrow> get_unit_costs t = (if i = 3 then alternate_costs else default_costs)"
  by (simp add: get_unit_costs_def UnitCosts_from_treatment_def)

lemma unit_costs_idx_only:
  "idx t' = idx t \<Longrightarrow> get_unit_costs t' = get_unit_costs t"
  by (simp add: get_unit_costs_def UnitCosts_from_treatment_def)


lemma rvs_disrupt_state:
  assumes "get_distribution_parameters t = (Inr p, t1)"
    and "size_arg = PyNone \<or> valid_size size_arg \<noteq> None"
  shows "cached_sigma (fst (snd (get_demand_rvs lognormal t size_arg True g))) = Some (2 * sigma p) \<and>
         cached_mu (fst (snd (get_demand_rvs lognormal t size_arg True g))) = Some (mu p)"
  using assms gdp_state [OF assms(1)]
  by (auto simp: get_demand_rvs_def Let_def split: prod.splits option.splits)

lemma gdp_valid_nonneg:
  assumes "valid_idx (idx t)" and "\<forall>s. cached_sigma t = Some s \<longrightarrow> 0 \<le> s"
  shows "\<exists>p t'. get_distribution_parameters t = (Inr p, t') \<and> 0 \<le> sigma p"
proof (cases "cached_mu t = None \<or> cached_sigma t = None")
  case True
  then show ?thesis using from_treatment_ok [OF assms(1)] gdp_fresh by blast
next
  case False
  then obtain m s where "cached_mu t = Some m" "cached_sigma t = Some s" by auto
  then show ?thesis using assms(2) by (simp add: gdp_cached)
qed

lemma rvs_returns:
  assumes "valid_size size_arg = Some n" and "get_distribution_parameters t = (Inr p, t1)"
    and "0 \<le> sigma p"
  shows "\<exists>xs. fst (get_demand_rvs lognormal t size_arg disrupt g) = Inr xs"
proof (cases "length (demand_rvs t) \<noteq> n \<or> disrupt")
  case True
  show ?thesis
    unfolding rvs_draw [OF assms(1) True assms(2,3)]
    by (simp add: Let_def split: prod.splits)
next
  case False
  then have "length (demand_rvs t) = n" and "disrupt = False" by simp_all
  then show ?thesis using rvs_cache_hit [OF assms(1), of t lognormal g] by simp
qed


lemma count_disrupting_calls:
  assumes "\<forall>sz \<in> set sizes. sz = PyNone \<or> valid_size sz \<noteq> None"
  shows "length (filter disrupts (map (\<lambda>sz. GetDemandRvs sz True) sizes)) = length sizes"
  using assms
proof (induction sizes)
  case Nil
  show ?case by simp
next
  case (Cons a sizes)
  then have "disrupts (GetDemandRvs a True)" by simp
  with Cons show ?case by simp
qed

lemma init_idx_only:
  "Treatment_init [(''idx'', v)] = new_Treatment v"
  by (simp add: Treatment_init_def new_Treatment_def)

lemma init_empty:
  "Treatment_init [] = new_Treatment idx_default"
  by (simp add: Treatment_init_def new_Treatment_def)

lemma Treatment_dict_empty:
  "Treatment_dict t = []"
  by (simp add: Treatment_dict_def Treatment_fields_def)




















subsection \<open>C4: unit costs are a function of the index\<close>

text \<open>
  Claim C4. For a treatment whose index is an integer \<open>i\<close> (in particular one of 0 to 5),
  \<open>get_unit_costs\<close> returns the alternate triple (24, 5.5, 5) if and only if \<open>i = 3\<close>, and
  the default triple (25, 14, 6) for every other index. It reads only \<open>idx\<close>: two
  treatments with the same index get the same costs, whatever their caches hold; and it
  returns no treatment, since it writes none.
\<close>

theorem unit_costs_by_index:
  assumes "idx t = PyInt i"
  shows "(get_unit_costs t = \<lparr>rcpu = 24, wcpu = 11 / 2, scpu = 5\<rparr> \<longleftrightarrow> i = 3) \<and>
         (i \<noteq> 3 \<longrightarrow> get_unit_costs t = \<lparr>rcpu = 25, wcpu = 14, scpu = 6\<rparr>) \<and>
         (\<forall>t'. idx t' = idx t \<longrightarrow> get_unit_costs t' = get_unit_costs t)"
proof -
  have a: "alternate_costs = \<lparr>rcpu = 24, wcpu = 11 / 2, scpu = 5\<rparr>"
    by (simp add: alternate_costs_def)
  have d: "default_costs = \<lparr>rcpu = 25, wcpu = 14, scpu = 6\<rparr>"
    by (simp add: default_costs_def)
  have 1: "get_unit_costs t = \<lparr>rcpu = 24, wcpu = 11 / 2, scpu = 5\<rparr> \<longleftrightarrow> i = 3"
    using unit_costs_int [OF assms(1)] costs_differ a d by (cases "i = 3") auto
  have 2: "i \<noteq> 3 \<longrightarrow> get_unit_costs t = \<lparr>rcpu = 25, wcpu = 14, scpu = 6\<rparr>"
    using unit_costs_int [OF assms(1)] d by simp
  have 3: "\<forall>t'. idx t' = idx t \<longrightarrow> get_unit_costs t' = get_unit_costs t"
    using unit_costs_idx_only by blast
  from 1 2 3 show ?thesis by blast
qed

theorem unit_costs_by_index_witness:
  "get_unit_costs (new_Treatment (PyInt 3)) = \<lparr>rcpu = 24, wcpu = 11 / 2, scpu = 5\<rparr> \<and>
   get_unit_costs (new_Treatment (PyInt 4)) = \<lparr>rcpu = 25, wcpu = 14, scpu = 6\<rparr>"
proof -
  have 3: "idx (new_Treatment (PyInt 3)) = PyInt 3" and 4: "idx (new_Treatment (PyInt 4)) = PyInt 4"
    by (simp_all add: new_Treatment_def)
  show ?thesis
    using unit_costs_by_index [OF 3] unit_costs_by_index [OF 4] by simp
qed

subsection \<open>C2: the fitted parameters and their cache\<close>

text \<open>
  Claim C2. For a treatment with index \<open>i\<close> in 0 to 5 whose parameters are not cached yet,
  with \<open>(m, s)\<close> the \<open>i\<close>-th entry of the profile table, the first call of
  \<open>get_distribution_parameters\<close> returns \<open>mu = ln (m\<^sup>2 / sqrt (s\<^sup>2 + m\<^sup>2))\<close> and
  \<open>sigma = sqrt (ln (s\<^sup>2 / m\<^sup>2 + 1))\<close> and stores the pair on the treatment; after any
  sequence \<open>cs\<close> of further method calls none of which disrupts, the next call of
  \<open>get_distribution_parameters\<close> returns the same pair.
\<close>

theorem distribution_parameters_fitted_and_cached:
  assumes "idx t = PyInt i" "0 \<le> i" "i \<le> 5"
    and "cached_mu t = None \<or> cached_sigma t = None"
    and "DISTRIBUTIONS ! nat i = (m, s)"
    and "filter disrupts cs = []"
  shows "\<exists>p. mu p = ln (real_of_int m ^ 2 / sqrt (real_of_int s ^ 2 + real_of_int m ^ 2)) \<and>
              sigma p = sqrt (ln (real_of_int s ^ 2 / real_of_int m ^ 2 + 1)) \<and>
              get_distribution_parameters t =
                (Inr p, t\<lparr>cached_mu := Some (mu p), cached_sigma := Some (sigma p)\<rparr>) \<and>
              fst (get_distribution_parameters
                     (fst (run places ppf lognormal cs (snd (get_distribution_parameters t), g)))) = Inr p"
proof -
  let ?p = "\<lparr>mu = ln (real_of_int (m ^ 2) / sqrt (real_of_int (s ^ 2 + m ^ 2))),
             sigma = sqrt (ln (real_of_int (s ^ 2) / real_of_int (m ^ 2) + 1))\<rparr>"
  have fit: "DisributionParameters_from_treatment t = Inr ?p"
    by (rule from_treatment_valid [OF assms(1,2,3,5)])
  have first: "get_distribution_parameters t =
                 (Inr ?p, t\<lparr>cached_mu := Some (mu ?p), cached_sigma := Some (sigma ?p)\<rparr>)"
    by (rule gdp_fresh [OF assms(4) fit])
  have "fst (get_distribution_parameters (snd (get_distribution_parameters t))) = Inr ?p"
    using gdp_again [OF first] first by simp
  from run_params [OF this, of places ppf lognormal cs g]
  have later: "fst (get_distribution_parameters
                     (fst (run places ppf lognormal cs (snd (get_distribution_parameters t), g)))) = Inr ?p"
    using assms(6) by simp
  show ?thesis
    apply (rule exI [of _ ?p])
    using first later by simp
qed

theorem distribution_parameters_fitted_and_cached_witness:
  "\<exists>p. mu p = ln (real_of_int 100 ^ 2 / sqrt (real_of_int 50 ^ 2 + real_of_int 100 ^ 2)) \<and>
       sigma p = sqrt (ln (real_of_int 50 ^ 2 / real_of_int 100 ^ 2 + 1)) \<and>
       get_distribution_parameters (new_Treatment (PyInt 0)) =
         (Inr p, (new_Treatment (PyInt 0))\<lparr>cached_mu := Some (mu p), cached_sigma := Some (sigma p)\<rparr>) \<and>
       fst (get_distribution_parameters
              (fst (run 2 (\<lambda>x. Finite 0) (\<lambda>g m s n. (replicate n (exp m), g))
                      [GetDistributionParameters, GetDemandRvs (PyInt 3) False, GetOptimalOrderQuantity]
                      (snd (get_distribution_parameters (new_Treatment (PyInt 0))), ())))) = Inr p"
proof -
  have 1: "idx (new_Treatment (PyInt 0)) = PyInt 0"
    and 2: "cached_mu (new_Treatment (PyInt 0)) = None \<or> cached_sigma (new_Treatment (PyInt 0)) = None"
    by (simp_all add: new_Treatment_def)
  have 3: "DISTRIBUTIONS ! nat 0 = (100, 50)"
    by (simp add: DISTRIBUTIONS_def)
  have 4: "filter disrupts
             [GetDistributionParameters, GetDemandRvs (PyInt 3) False, GetOptimalOrderQuantity] = []"
    by simp
  show ?thesis
    by (rule distribution_parameters_fitted_and_cached [OF 1 _ _ 2 3 4]) simp_all
qed

subsection \<open>C1: the optimal order quantity\<close>




subsection \<open>C9: the optimal order quantity is finite, non-negative and determined by the treatment\<close>




subsection \<open>C10: duplicate profiles\<close>

text \<open>
  Claim C10. The profile table holds each of its three entries twice: indices 2 and 3
  are (500, 150), indices 0 and 4 are (100, 50), indices 1 and 5 are (100, 100). For
  each such pair of indices the fit is the same and \<open>get_distribution_parameters\<close>
  returns the same pair on fresh treatments; treatments 2 and 3 differ in their unit costs.
\<close>

theorem duplicate_profiles:
  assumes "(i = 2 \<and> j = 3) \<or> (i = 0 \<and> j = 4) \<or> (i = 1 \<and> j = 5)"
    and "idx t = PyInt i" and "idx t' = PyInt j"
  shows "DISTRIBUTIONS ! nat i = DISTRIBUTIONS ! nat j \<and>
         DISTRIBUTIONS ! nat i = (if i = 2 then (500, 150) else if i = 0 then (100, 50) else (100, 100)) \<and>
         DisributionParameters_from_treatment t = DisributionParameters_from_treatment t' \<and>
         fst (get_distribution_parameters (new_Treatment (idx t))) =
           fst (get_distribution_parameters (new_Treatment (idx t'))) \<and>
         (\<exists>p. fst (get_distribution_parameters (new_Treatment (idx t))) = Inr p) \<and>
         (i = 2 \<longrightarrow> get_unit_costs t \<noteq> get_unit_costs t')"
proof -
  have tab: "DISTRIBUTIONS ! nat i = DISTRIBUTIONS ! nat j"
    and lit: "DISTRIBUTIONS ! nat i = (if i = 2 then (500, 150) else if i = 0 then (100, 50) else (100, 100))"
    using assms(1) by (auto simp: DISTRIBUTIONS_def)
  have bi: "0 \<le> i" "i \<le> 5" and bj: "0 \<le> j" "j \<le> 5" using assms(1) by auto
  obtain m s where ms: "DISTRIBUTIONS ! nat i = (m, s)" by (cases "DISTRIBUTIONS ! nat i")
  have fit: "DisributionParameters_from_treatment t = DisributionParameters_from_treatment t'"
    using from_treatment_valid [OF assms(2) bi ms] from_treatment_valid [OF assms(3) bj, of m s] tab ms
    by simp
  have n1: "idx (new_Treatment (idx t)) = PyInt i" and n2: "idx (new_Treatment (idx t')) = PyInt j"
    and f1: "cached_mu (new_Treatment (idx t)) = None \<or> cached_sigma (new_Treatment (idx t)) = None"
    and f2: "cached_mu (new_Treatment (idx t')) = None \<or> cached_sigma (new_Treatment (idx t')) = None"
    using assms(2,3) by (simp_all add: new_Treatment_def)
  have g1: "fst (get_distribution_parameters (new_Treatment (idx t))) =
              Inr \<lparr>mu = ln (real_of_int (m ^ 2) / sqrt (real_of_int (s ^ 2 + m ^ 2))),
                   sigma = sqrt (ln (real_of_int (s ^ 2) / real_of_int (m ^ 2) + 1))\<rparr>"
    using gdp_fresh [OF f1 from_treatment_valid [OF n1 bi ms]] by simp
  have g2: "fst (get_distribution_parameters (new_Treatment (idx t'))) =
              Inr \<lparr>mu = ln (real_of_int (m ^ 2) / sqrt (real_of_int (s ^ 2 + m ^ 2))),
                   sigma = sqrt (ln (real_of_int (s ^ 2) / real_of_int (m ^ 2) + 1))\<rparr>"
    using gdp_fresh [OF f2 from_treatment_valid [OF n2 bj, of m s]] tab ms by simp
  have costs: "i = 2 \<longrightarrow> get_unit_costs t \<noteq> get_unit_costs t'"
    using assms unit_costs_int [OF assms(2)] unit_costs_int [OF assms(3)] costs_differ by auto
  show ?thesis
    using tab lit fit g1 g2 costs by simp
qed

theorem duplicate_profiles_witness:
  "DISTRIBUTIONS ! nat 2 = DISTRIBUTIONS ! nat 3 \<and>
   DisributionParameters_from_treatment (new_Treatment (PyInt 2)) =
     DisributionParameters_from_treatment (new_Treatment (PyInt 3)) \<and>
   fst (get_distribution_parameters (new_Treatment (PyInt 2))) =
     fst (get_distribution_parameters (new_Treatment (PyInt 3))) \<and>
   get_unit_costs (new_Treatment (PyInt 2)) \<noteq> get_unit_costs (new_Treatment (PyInt 3))"
proof -
  have 2: "idx (new_Treatment (PyInt 2)) = PyInt 2" and 3: "idx (new_Treatment (PyInt 3)) = PyInt 3"
    by (simp_all add: new_Treatment_def)
  have h: "((2::int) = 2 \<and> (3::int) = 3) \<or> ((2::int) = 0 \<and> (3::int) = 4) \<or> ((2::int) = 1 \<and> (3::int) = 5)"
    by simp
  from duplicate_profiles [OF h 2 3] show ?thesis by (simp add: 2 3)
qed

subsection \<open>C3: disruption compounds and is never undone\<close>

text \<open>
  Claim C3. Let \<open>p\<close> be the parameters of a treatment (what \<open>get_distribution_parameters\<close>
  returns for it). A call of \<open>get_demand_rvs\<close> with \<^verbatim>\<open>disrupt=True\<close> and an accepted size
  leaves the cached sigma at exactly twice \<open>sigma p\<close> and the cached mu at \<open>mu p\<close>. A
  sequence of \<open>n\<close> such calls leaves the parameters at \<open>mu p\<close> and \<open>2 ^ n * sigma p\<close>. After
  any sequence \<open>cs\<close> of method calls the parameters are \<open>mu p\<close> and \<open>2 ^ k * sigma p\<close>, with
  \<open>k\<close> the number of disrupting calls in \<open>cs\<close>: a call of \<open>get_distribution_parameters\<close>,
  of \<open>get_optimal_order_quantity\<close> or of \<open>get_demand_rvs\<close> without disruption never
  changes them back.
\<close>

theorem disruption_compounds:
  assumes "fst (get_distribution_parameters t) = Inr p"
  shows "(size_arg = PyNone \<or> valid_size size_arg \<noteq> None \<longrightarrow>
            cached_sigma (fst (snd (get_demand_rvs lognormal t size_arg True g))) = Some (2 * sigma p) \<and>
            cached_mu (fst (snd (get_demand_rvs lognormal t size_arg True g))) = Some (mu p)) \<and>
         ((\<forall>sz \<in> set sizes. sz = PyNone \<or> valid_size sz \<noteq> None) \<longrightarrow>
            fst (get_distribution_parameters
                   (fst (run places ppf lognormal (map (\<lambda>sz. GetDemandRvs sz True) sizes) (t, g)))) =
              Inr \<lparr>mu = mu p, sigma = 2 ^ length sizes * sigma p\<rparr>) \<and>
         fst (get_distribution_parameters (fst (run places ppf lognormal cs (t, g)))) =
           Inr \<lparr>mu = mu p, sigma = 2 ^ length (filter disrupts cs) * sigma p\<rparr>"
proof -
  obtain t1 where t1: "get_distribution_parameters t = (Inr p, t1)"
    using assms by (cases "get_distribution_parameters t") simp
  have one: "size_arg = PyNone \<or> valid_size size_arg \<noteq> None \<longrightarrow>
            cached_sigma (fst (snd (get_demand_rvs lognormal t size_arg True g))) = Some (2 * sigma p) \<and>
            cached_mu (fst (snd (get_demand_rvs lognormal t size_arg True g))) = Some (mu p)"
  proof
    assume "size_arg = PyNone \<or> valid_size size_arg \<noteq> None"
    then show "cached_sigma (fst (snd (get_demand_rvs lognormal t size_arg True g))) = Some (2 * sigma p) \<and>
            cached_mu (fst (snd (get_demand_rvs lognormal t size_arg True g))) = Some (mu p)"
      by (rule rvs_disrupt_state [OF t1])
  qed
  have many: "(\<forall>sz \<in> set sizes. sz = PyNone \<or> valid_size sz \<noteq> None) \<longrightarrow>
            fst (get_distribution_parameters
                   (fst (run places ppf lognormal (map (\<lambda>sz. GetDemandRvs sz True) sizes) (t, g)))) =
              Inr \<lparr>mu = mu p, sigma = 2 ^ length sizes * sigma p\<rparr>"
  proof
    assume ok: "\<forall>sz \<in> set sizes. sz = PyNone \<or> valid_size sz \<noteq> None"
    show "fst (get_distribution_parameters
                   (fst (run places ppf lognormal (map (\<lambda>sz. GetDemandRvs sz True) sizes) (t, g)))) =
              Inr \<lparr>mu = mu p, sigma = 2 ^ length sizes * sigma p\<rparr>"
      unfolding run_params [OF assms] count_disrupting_calls [OF ok] by (rule refl)
  qed
  show ?thesis
    by (intro conjI) (rule one many run_params [OF assms])+
qed

theorem disruption_compounds_witness:
  "\<exists>p. fst (get_distribution_parameters (new_Treatment (PyInt 0))) = Inr p \<and>
       fst (get_distribution_parameters
              (fst (run 2 Finite (\<lambda>g m s n. (replicate n (exp m), g))
                      [GetDemandRvs (PyInt 2) True, GetDistributionParameters,
                       GetDemandRvs (PyInt 2) False, GetOptimalOrderQuantity, GetDemandRvs PyNone True]
                      (new_Treatment (PyInt 0), ())))) =
         Inr \<lparr>mu = mu p, sigma = 2 ^ 2 * sigma p\<rparr>"
proof -
  let ?cs = "[GetDemandRvs (PyInt 2) True, GetDistributionParameters,
              GetDemandRvs (PyInt 2) False, GetOptimalOrderQuantity, GetDemandRvs PyNone True]"
  have "valid_idx (idx (new_Treatment (PyInt 0)))"
    by (simp add: new_Treatment_def)
  then obtain p t' where "get_distribution_parameters (new_Treatment (PyInt 0)) = (Inr p, t')"
    using gdp_valid by blast
  then have p: "fst (get_distribution_parameters (new_Treatment (PyInt 0))) = Inr p"
    by simp
  have n: "length (filter disrupts ?cs) = 2"
    by simp
  have "fst (get_distribution_parameters
              (fst (run 2 Finite (\<lambda>g m s n. (replicate n (exp m), g)) ?cs
                      (new_Treatment (PyInt 0), ())))) =
         Inr \<lparr>mu = mu p, sigma = 2 ^ length (filter disrupts ?cs) * sigma p\<rparr>"
    by (rule disruption_compounds [OF p, where places = 2 and ppf = Finite
          and lognormal = "\<lambda>g m s n. (replicate n (exp m), g)" and cs = ?cs and g = "()",
          THEN conjunct2, THEN conjunct2])
  then have "fst (get_distribution_parameters
              (fst (run 2 Finite (\<lambda>g m s n. (replicate n (exp m), g)) ?cs
                      (new_Treatment (PyInt 0), ())))) =
         Inr \<lparr>mu = mu p, sigma = 2 ^ 2 * sigma p\<rparr>"
    unfolding n .
  with p show ?thesis by blast
qed

subsection \<open>C5: reuse of the cached samples\<close>

text \<open>
  Claim C5. Let \<open>n\<close> be a positive integer size. If the treatment caches exactly \<open>n\<close>
  draws, \<open>get_demand_rvs\<close> without disruption returns them and changes neither the
  treatment nor the generator, so a second such call returns the same sequence. If it
  caches another number of draws, the call draws \<open>xs\<close> from the generator with the
  treatment's parameters, stores \<open>xs\<close> in place of the old cache and returns it; \<open>xs\<close>
  has \<open>n\<close> elements when the sampler delivers as many as it is asked for, and then the
  next call with the same size returns \<open>xs\<close> again.
\<close>

theorem sample_cache_reuse:
  assumes "valid_size size_arg = Some n"
  shows "(length (demand_rvs t) = n \<longrightarrow>
            get_demand_rvs lognormal t size_arg False g = (Inr (demand_rvs t), t, g)) \<and>
         (length (demand_rvs t) \<noteq> n \<and> get_distribution_parameters t = (Inr p, t1) \<and> 0 \<le> sigma p \<and>
          lognormal g (mu p) (sigma p) n = (xs, g') \<and> length xs = n \<longrightarrow>
            get_demand_rvs lognormal t size_arg False g = (Inr xs, t1\<lparr>demand_rvs := xs\<rparr>, g') \<and>
            get_demand_rvs lognormal (t1\<lparr>demand_rvs := xs\<rparr>) size_arg False g' =
              (Inr xs, t1\<lparr>demand_rvs := xs\<rparr>, g'))"
proof (intro conjI impI)
  assume "length (demand_rvs t) = n"
  then show "get_demand_rvs lognormal t size_arg False g = (Inr (demand_rvs t), t, g)"
    by (rule rvs_cache_hit [OF assms])
next
  assume h: "length (demand_rvs t) \<noteq> n \<and> get_distribution_parameters t = (Inr p, t1) \<and> 0 \<le> sigma p \<and>
          lognormal g (mu p) (sigma p) n = (xs, g') \<and> length xs = n"
  then have miss: "length (demand_rvs t) \<noteq> n \<or> False"
    and par: "get_distribution_parameters t = (Inr p, t1)" and nn: "0 \<le> sigma p"
    and draw: "lognormal g (mu p) (sigma p) n = (xs, g')" and len: "length xs = n"
    by simp_all
  show "get_demand_rvs lognormal t size_arg False g = (Inr xs, t1\<lparr>demand_rvs := xs\<rparr>, g')"
    using rvs_draw [OF assms miss par nn, of lognormal g] by (simp add: draw)
  have "length (demand_rvs (t1\<lparr>demand_rvs := xs\<rparr>)) = n"
    using len by simp
  from rvs_cache_hit [OF assms this, of lognormal g']
  show "get_demand_rvs lognormal (t1\<lparr>demand_rvs := xs\<rparr>) size_arg False g' =
              (Inr xs, t1\<lparr>demand_rvs := xs\<rparr>, g')"
    by simp
qed

theorem sample_cache_reuse_witness:
  "get_demand_rvs (\<lambda>g m s n. (replicate n m, g))
     \<lparr>idx = PyInt 0, cached_mu = Some 0, cached_sigma = Some 1, demand_rvs = [5, 6]\<rparr>
     (PyInt 2) False () =
     (Inr [5, 6], \<lparr>idx = PyInt 0, cached_mu = Some 0, cached_sigma = Some 1, demand_rvs = [5, 6]\<rparr>, ()) \<and>
   get_demand_rvs (\<lambda>g m s n. (replicate n m, g))
     \<lparr>idx = PyInt 0, cached_mu = Some 0, cached_sigma = Some 1, demand_rvs = [5, 6]\<rparr>
     (PyInt 3) False () =
     (Inr (replicate 3 0),
      \<lparr>idx = PyInt 0, cached_mu = Some 0, cached_sigma = Some 1, demand_rvs = replicate 3 0\<rparr>, ())"
proof -
  let ?L = "\<lambda>(g::unit) (m::real) (s::real) n. (replicate n m, g)"
  let ?t = "\<lparr>idx = PyInt 0, cached_mu = Some 0, cached_sigma = Some 1, demand_rvs = [5, 6]\<rparr>"
  let ?p = "\<lparr>mu = 0, sigma = 1\<rparr>"
  have s2: "valid_size (PyInt 2) = Some 2" and s3: "valid_size (PyInt 3) = Some 3"
    by simp_all
  have hit: "length (demand_rvs ?t) = 2"
    by simp
  have miss: "length (demand_rvs ?t) \<noteq> 3 \<and> get_distribution_parameters ?t = (Inr ?p, ?t) \<and>
              0 \<le> sigma ?p \<and> ?L () (mu ?p) (sigma ?p) 3 = (replicate 3 0, ()) \<and>
              length (replicate 3 (0::real)) = 3"
    by (simp add: gdp_cached)
  have a: "get_demand_rvs ?L ?t (PyInt 2) False () = (Inr (demand_rvs ?t), ?t, ())"
    using sample_cache_reuse [OF s2, where t = ?t and lognormal = ?L and g = "()", THEN conjunct1] hit by (rule mp)
  have b: "get_demand_rvs ?L ?t (PyInt 3) False () = (Inr (replicate 3 0), ?t\<lparr>demand_rvs := replicate 3 0\<rparr>, ())"
    using sample_cache_reuse [OF s3, where t = ?t and p = ?p and ?t1.0 = ?t and lognormal = ?L and g = "()"
          and xs = "replicate 3 0" and g' = "()", THEN conjunct2] miss
    by (rule mp [THEN conjunct1])
  from a b show ?thesis by simp
qed

subsection \<open>C7: the size check\<close>

text \<open>
  Claim C7, as stated, fails for the size \<^verbatim>\<open>None\<close>: it is not a positive integer, and the
  method replaces it by 10000 and returns samples.
\<close>

theorem demand_rvs_size_none_counterexample:
  "valid_size PyNone = None \<and>
   fst (get_demand_rvs (\<lambda>g m s n. (replicate n m, g))
          \<lparr>idx = PyInt 0, cached_mu = Some 0, cached_sigma = Some 1, demand_rvs = []\<rparr>
          PyNone False ()) = Inr (replicate 10000 0)"
  by (simp add: get_demand_rvs_def get_distribution_parameters_def)

text \<open>
  Claim C7, amended. For every treatment and every size other than \<^verbatim>\<open>None\<close> that is not
  a positive integer (an integer below 1, or a value whose type is not \<^verbatim>\<open>int\<close>),
  \<open>get_demand_rvs\<close> raises \<^verbatim>\<open>AssertionError\<close> at once and leaves the treatment and the
  generator as they were. The size \<^verbatim>\<open>None\<close> stands for 10000. For every positive integer
  size and every treatment with an index in 0 to 5 whose cached sigma, if there is one, is
  not negative, the call returns samples and raises nothing.
\<close>

theorem demand_rvs_size_check:
  "(size_arg \<noteq> PyNone \<and> valid_size size_arg = None \<longrightarrow>
      get_demand_rvs lognormal t size_arg disrupt g = (Inl AssertionError, t, g)) \<and>
   get_demand_rvs lognormal t PyNone disrupt g = get_demand_rvs lognormal t (PyInt 10000) disrupt g \<and>
   ((\<exists>k. size_arg = PyInt k \<and> 0 < k) \<and> valid_idx (idx t) \<and>
    (\<forall>s. cached_sigma t = Some s \<longrightarrow> 0 \<le> s) \<longrightarrow>
      (\<exists>xs. fst (get_demand_rvs lognormal t size_arg disrupt g) = Inr xs)) \<and>
   (valid_size size_arg = None \<longleftrightarrow> \<not> (\<exists>k. size_arg = PyInt k \<and> 0 < k))"
proof (intro conjI impI)
  assume "size_arg \<noteq> PyNone \<and> valid_size size_arg = None"
  then have "size_arg \<noteq> PyNone" and "valid_size size_arg = None" by simp_all
  then show "get_demand_rvs lognormal t size_arg disrupt g = (Inl AssertionError, t, g)"
    by (rule rvs_invalid_size)
next
  show "get_demand_rvs lognormal t PyNone disrupt g = get_demand_rvs lognormal t (PyInt 10000) disrupt g"
    by (rule rvs_default_size)
next
  assume h: "(\<exists>k. size_arg = PyInt k \<and> 0 < k) \<and> valid_idx (idx t) \<and>
    (\<forall>s. cached_sigma t = Some s \<longrightarrow> 0 \<le> s)"
  then obtain k where k: "size_arg = PyInt k" "0 < k" by (elim conjE exE)
  then have vs: "valid_size size_arg = Some (nat k)" by simp
  from h have v: "valid_idx (idx t)"
    by (elim conjE)
  from h have s: "\<forall>s. cached_sigma t = Some s \<longrightarrow> 0 \<le> s"
    by (elim conjE)
  obtain p t1 where "get_distribution_parameters t = (Inr p, t1)" "0 \<le> sigma p"
    using gdp_valid_nonneg [OF v s] by (elim exE conjE)
  then show "\<exists>xs. fst (get_demand_rvs lognormal t size_arg disrupt g) = Inr xs"
    by (rule rvs_returns [OF vs])
next
  show "valid_size size_arg = None \<longleftrightarrow> \<not> (\<exists>k. size_arg = PyInt k \<and> 0 < k)"
    by (cases size_arg) auto
qed

theorem demand_rvs_size_check_witness:
  "get_demand_rvs (\<lambda>g m s n. (replicate n m, g)) (new_Treatment (PyInt 2)) (PyInt 0) True () =
     (Inl AssertionError, new_Treatment (PyInt 2), ()) \<and>
   get_demand_rvs (\<lambda>g m s n. (replicate n m, g)) (new_Treatment (PyInt 2)) (PyFloat 2) False () =
     (Inl AssertionError, new_Treatment (PyInt 2), ()) \<and>
   (\<exists>xs. fst (get_demand_rvs (\<lambda>g m s n. (replicate n m, g)) (new_Treatment (PyInt 2)) (PyInt 7) False ()) =
      Inr xs)"
proof -
  let ?L = "\<lambda>(g::unit) (m::real) (s::real) n. (replicate n m, g)"
  let ?t = "new_Treatment (PyInt 2)"
  have 0: "PyInt 0 \<noteq> PyNone \<and> valid_size (PyInt 0) = None"
    and 2: "PyFloat 2 \<noteq> PyNone \<and> valid_size (PyFloat 2) = None"
    by simp_all
  have 7: "(\<exists>k. PyInt 7 = PyInt k \<and> 0 < k) \<and> valid_idx (idx ?t) \<and>
           (\<forall>s. cached_sigma ?t = Some s \<longrightarrow> 0 \<le> s)"
    by (simp add: new_Treatment_def)
  have a: "get_demand_rvs ?L ?t (PyInt 0) True () = (Inl AssertionError, ?t, ())"
    using demand_rvs_size_check [where size_arg = "PyInt 0" and lognormal = ?L and t = ?t and disrupt = True and g = "()", THEN conjunct1] 0 by (rule mp)
  have b: "get_demand_rvs ?L ?t (PyFloat 2) False () = (Inl AssertionError, ?t, ())"
    using demand_rvs_size_check [where size_arg = "PyFloat 2" and lognormal = ?L and t = ?t and disrupt = False and g = "()", THEN conjunct1] 2 by (rule mp)
  have c: "\<exists>xs. fst (get_demand_rvs ?L ?t (PyInt 7) False ()) = Inr xs"
    using demand_rvs_size_check [where size_arg = "PyInt 7" and lognormal = ?L and t = ?t and disrupt = False and g = "()", THEN conjunct2, THEN conjunct2, THEN conjunct1] 7
    by (rule mp)
  from a b c show ?thesis by (intro conjI)
qed

subsection \<open>C6: deserialization does not check the index\<close>

text \<open>
  Claim C6 says that \<open>from_json\<close> fails for every malformed blob and for every blob whose
  index is outside 0 to 5. The first half holds: when the library cannot decode the blob,
  its exception is what \<open>from_json\<close> raises. The second half does not: a blob that decodes
  to an object with the one entry \<^verbatim>\<open>idx\<close> yields a treatment with that index, whatever
  the value is, because the bounds given to \<^verbatim>\<open>conint\<close> are the default value of \<^verbatim>\<open>idx\<close>
  and not its type. The theorem states what \<open>from_json\<close> does; its instance at the blob
  \<^verbatim>\<open>{"idx": 7}\<close> is the failing input.
\<close>

theorem from_json_keeps_any_index:
  assumes "decode blob = Inr [(''idx'', v)]"
  shows "from_json decode blob = Inr (new_Treatment v) \<and>
         (\<forall>e. decode other = Inl e \<longrightarrow> from_json decode other = Inl e)"
  using assms by (simp add: from_json_def init_idx_only)

theorem from_json_keeps_any_index_witness:
  "from_json (\<lambda>b. if b = out_of_range_blob then Inr [(''idx'', PyInt 7)] else Inl ValidationError)
     out_of_range_blob = Inr (new_Treatment (PyInt 7)) \<and>
   \<not> valid_idx (PyInt 7) \<and>
   from_json (\<lambda>b. if b = out_of_range_blob then Inr [(''idx'', PyInt 7)] else Inl ValidationError)
     ''{'' = Inl ValidationError"
proof -
  let ?decode = "\<lambda>b. if b = out_of_range_blob then Inr [(''idx'', PyInt 7)] else Inl ValidationError"
  have d: "?decode out_of_range_blob = Inr [(''idx'', PyInt 7)]" and m: "?decode ''{'' = Inl ValidationError"
    by (simp_all add: out_of_range_blob_def)
  note th = from_json_keeps_any_index [of ?decode out_of_range_blob "PyInt 7" "''{''", OF d]
  have a: "from_json ?decode out_of_range_blob = Inr (new_Treatment (PyInt 7))"
    using th by (elim conjE)
  have "\<forall>e. ?decode ''{'' = Inl e \<longrightarrow> from_json ?decode ''{'' = Inl e"
    using th by (elim conjE)
  then have "?decode ''{'' = Inl ValidationError \<longrightarrow> from_json ?decode ''{'' = Inl ValidationError"
    by (rule spec)
  then have b: "from_json ?decode ''{'' = Inl ValidationError"
    using m by (rule mp)
  have c: "\<not> valid_idx (PyInt 7)" by simp
  from a c b show ?thesis by (intro conjI)
qed

subsection \<open>C8: the round trip through JSON loses the index\<close>

text \<open>
  Claim C8 says that \<open>from_json (json t)\<close> has the index of \<open>t\<close>. In the code \<open>json\<close>
  emits only the declared fields of the class, and \<^verbatim>\<open>idx\<close> is not one of them (see the
  record \<open>Treatment\<close>): for every treatment the text is the encoding of the empty object.
  When the decoder reads that text back as the empty object, \<open>from_json\<close> builds a
  treatment with no index of its own, whose \<^verbatim>\<open>idx\<close> is the class attribute and no
  integer. The theorem states this behaviour of the code.
\<close>

theorem json_round_trip_drops_idx:
  assumes "decode (dumps (PyDict [])) = Inr []"
  shows "json dumps t = dumps (PyDict []) \<and>
         from_json decode (json dumps t) = Inr (new_Treatment idx_default) \<and>
         idx (new_Treatment idx_default) \<noteq> PyInt i"
  using assms
  by (simp add: json_def Treatment_dict_empty from_json_def init_empty new_Treatment_def idx_default_def)

theorem json_round_trip_drops_idx_witness:
  "from_json (\<lambda>b. if b = ''{}'' then Inr [] else Inl ValidationError)
     (json (\<lambda>v. if v = PyDict [] then ''{}'' else ''?'') (new_Treatment (PyInt 3))) =
     Inr (new_Treatment idx_default) \<and>
   idx (new_Treatment idx_default) \<noteq> idx (new_Treatment (PyInt 3))"
proof -
  let ?decode = "\<lambda>b. if b = ''{}'' then Inr [] else Inl ValidationError"
  let ?dumps = "\<lambda>v. if v = PyDict [] then ''{}'' else ''?''"
  have d: "?decode (?dumps (PyDict [])) = Inr []" by simp
  note th = json_round_trip_drops_idx [of ?decode ?dumps "new_Treatment (PyInt 3)" 3, OF d]
  have a: "from_json ?decode (json ?dumps (new_Treatment (PyInt 3))) = Inr (new_Treatment idx_default)"
    using th by (elim conjE)
  have "idx (new_Treatment idx_default) \<noteq> PyInt 3"
    using th by (elim conjE)
  then have b: "idx (new_Treatment idx_default) \<noteq> idx (new_Treatment (PyInt 3))"
    by (simp add: new_Treatment_def)
  from a b show ?thesis by (rule conjI)
qed

end
